theory Spec2Isabelle
  imports Main "HOL-Library.AList"
begin

section \<open>The documentation index preparer (scripts/prepare_docs.py)\<close>

text \<open>
  The script under verification:
  \<^verbatim>\<open>
  from pathlib import Path

  ROOT = Path(__file__).parent.parent

  def prepare_index_file() -> None:
      (ROOT / "docs" / "index.md").write_text((ROOT / "README.md").read_text())

  def main() -> None:
      prepare_index_file()

  if __name__ == "__main__":
      main()
  \<close>
  The script itself is three lines of glue; everything it does happens inside
  \<open>pathlib\<close>: lexical path arithmetic (\<open>parent\<close>, \<open>/\<close>) and the two text-mode
  file operations \<open>read_text\<close> and \<open>write_text\<close>. These are embedded below as far as the
  script can observe them: a tree-shaped file system holding bytes, the errors that opening
  a file raises, the platform's default text encoding, and the newline translation that
  Python's text mode applies on reading and on writing.
\<close>

subsection \<open>Bytes, text and the platform\<close>

text \<open>
  A file holds bytes; a Python \<open>str\<close> is a sequence of Unicode code points.
\<close>

type_synonym bytes = "char list"
type_synonym str = "nat list"

abbreviation LF :: nat where "LF \<equiv> 10"
abbreviation CR :: nat where "CR \<equiv> 13"

text \<open>
  Neither call of the script passes \<open>encoding\<close>, \<open>errors\<close> or \<open>newline\<close>, so both run with
  the interpreter's default text encoding in strict mode and with \<open>newline=None\<close>. The
  encoding and \<open>os.linesep\<close> belong to the platform, not to the script: they are the
  parameters of the model. \<open>decode\<close> yields \<open>None\<close> where Python raises
  \<open>UnicodeDecodeError\<close>, \<open>encode\<close> where it raises \<open>UnicodeEncodeError\<close>.
\<close>

record platform =
  decode :: "bytes \<Rightarrow> str option"
  encode :: "str \<Rightarrow> bytes option"
  linesep :: str

text \<open>
  Reading with \<open>newline=None\<close> is universal-newlines mode: \<open>\r\n\<close> and a lone \<open>\r\<close> both
  arrive as \<open>\n\<close>.
\<close>

fun nl_in :: "str \<Rightarrow> str" where
  "nl_in [] = []"
| "nl_in [c] = (if c = CR then [LF] else [c])"
| "nl_in (c # d # cs) =
     (if c = CR then (if d = LF then LF # nl_in cs else LF # nl_in (d # cs))
      else c # nl_in (d # cs))"

text \<open>Writing with \<open>newline=None\<close> replaces every \<open>\n\<close> by \<open>os.linesep\<close>.\<close>

fun nl_out :: "str \<Rightarrow> str \<Rightarrow> str" where
  "nl_out sep [] = []"
| "nl_out sep (c # cs) = (if c = LF then sep @ nl_out sep cs else c # nl_out sep cs)"

text \<open>
  Two concrete encodings, used to run the model: ISO-8859-1, where every byte is the code
  point of the same number, and ASCII, which rejects bytes and code points from 128 on.
\<close>

definition latin1_decode :: "bytes \<Rightarrow> str option" where
  "latin1_decode b = Some (map of_char b)"

definition latin1_encode :: "str \<Rightarrow> bytes option" where
  "latin1_encode t = (if list_all (\<lambda>c. c < 256) t then Some (map char_of t) else None)"

definition ascii_decode :: "bytes \<Rightarrow> str option" where
  "ascii_decode b =
     (if list_all (\<lambda>c. (of_char c :: nat) < 128) b then Some (map of_char b) else None)"

definition ascii_encode :: "str \<Rightarrow> bytes option" where
  "ascii_encode t = (if list_all (\<lambda>c. c < 128) t then Some (map char_of t) else None)"

definition posix_latin1 :: platform where
  "posix_latin1 = \<lparr>decode = latin1_decode, encode = latin1_encode, linesep = [LF]\<rparr>"

definition posix_ascii :: platform where
  "posix_ascii = \<lparr>decode = ascii_decode, encode = ascii_encode, linesep = [LF]\<rparr>"

definition windows_latin1 :: platform where
  "windows_latin1 = \<lparr>decode = latin1_decode, encode = latin1_encode, linesep = [CR, LF]\<rparr>"

subsection \<open>Pure paths\<close>

text \<open>
  A \<open>pathlib\<close> path after parsing: whether it has an anchor (a root, with the drive on
  Windows), and the components after it. \<open>parent\<close> is lexical: it drops the last
  component, and a path without components is its own parent. \<open>p / "name"\<close> with a single
  relative name appends it; the script joins only the literals \<open>"README.md"\<close>, \<open>"docs"\<close>
  and \<open>"index.md"\<close>.
\<close>

datatype pure_path = PurePath (anchored: bool) (tail: "string list")

fun parent :: "pure_path \<Rightarrow> pure_path" where
  "parent (PurePath a t) = (if t = [] then PurePath a t else PurePath a (butlast t))"

fun joinpath :: "pure_path \<Rightarrow> string \<Rightarrow> pure_path" where
  "joinpath (PurePath a t) name = PurePath a (t @ [name])"

text \<open>\<open>ROOT = Path(__file__).parent.parent\<close>; the argument stands for \<open>Path(__file__)\<close>.\<close>

definition ROOT :: "pure_path \<Rightarrow> pure_path" where
  "ROOT file = parent (parent file)"

definition readme_path :: "pure_path \<Rightarrow> pure_path" where
  "readme_path file = joinpath (ROOT file) ''README.md''"

definition index_path :: "pure_path \<Rightarrow> pure_path" where
  "index_path file = joinpath (joinpath (ROOT file) ''docs'') ''index.md''"

subsection \<open>The file system\<close>

text \<open>
  A tree of directories and regular files, without links and without access control. A
  directory is the list of its entries; the first entry of a name is the one found.
\<close>

datatype node = File bytes | Dir "(string \<times> node) list"

datatype error =
    FileNotFoundError
  | NotADirectoryError
  | IsADirectoryError
  | UnicodeDecodeError
  | UnicodeEncodeError

datatype mode = Reading | Writing

datatype event = Open "string list" mode

text \<open>
  The world the script runs in: the tree under the file-system root, the process's current
  working directory, and the record of the files opened so far (what Python's \<open>open\<close>
  audit hook would report), which makes "how many reads and writes" a statement about a
  value.
\<close>

record world =
  fs :: node
  cwd :: "string list"
  opened :: "event list"

text \<open>The operating system resolves a relative path against the working directory.\<close>

fun resolve :: "string list \<Rightarrow> pure_path \<Rightarrow> string list" where
  "resolve wd (PurePath a t) = (if a then t else wd @ t)"

fun child :: "node \<Rightarrow> string \<Rightarrow> error + node" where
  "child (File b) name = Inl NotADirectoryError"
| "child (Dir es) name =
     (case map_of es name of None \<Rightarrow> Inl FileNotFoundError | Some n \<Rightarrow> Inr n)"

fun lookup :: "node \<Rightarrow> string list \<Rightarrow> error + node" where
  "lookup n [] = Inr n"
| "lookup n (x # xs) = (case child n x of Inl e \<Rightarrow> Inl e | Inr m \<Rightarrow> lookup m xs)"

text \<open>Opening for reading and taking the whole content.\<close>

definition slurp :: "node \<Rightarrow> string list \<Rightarrow> error + bytes" where
  "slurp n p =
     (case lookup n p of
        Inl e \<Rightarrow> Inl e
      | Inr (File b) \<Rightarrow> Inr b
      | Inr (Dir es) \<Rightarrow> Inl IsADirectoryError)"

text \<open>
  Opening with mode \<open>'w'\<close> creates the file in an existing directory or replaces the content
  of an existing file; it creates no directory. \<open>store n p b\<close> is the tree in which the file
  at \<open>p\<close> holds \<open>b\<close>.
\<close>

fun store :: "node \<Rightarrow> string list \<Rightarrow> bytes \<Rightarrow> error + node" where
  "store (File old) [] b = Inr (File b)"
| "store (Dir es) [] b = Inl IsADirectoryError"
| "store (File old) (x # xs) b = Inl NotADirectoryError"
| "store (Dir es) (x # xs) b =
     (case map_of es x of
        None \<Rightarrow>
          if xs = [] then Inr (Dir (AList.update x (File b) es)) else Inl FileNotFoundError
      | Some m \<Rightarrow>
          (case store m xs b of
             Inl e \<Rightarrow> Inl e
           | Inr m' \<Rightarrow> Inr (Dir (AList.update x m' es))))"

text \<open>What a path holds, if it names a regular file; and whether it names a directory.\<close>

definition content :: "node \<Rightarrow> string list \<Rightarrow> bytes option" where
  "content n p = (case lookup n p of Inr (File b) \<Rightarrow> Some b | _ \<Rightarrow> None)"

definition is_dir :: "node \<Rightarrow> string list \<Rightarrow> bool" where
  "is_dir n p = (case lookup n p of Inr (Dir es) \<Rightarrow> True | _ \<Rightarrow> False)"

definition exists_path :: "node \<Rightarrow> string list \<Rightarrow> bool" where
  "exists_path n p = (case lookup n p of Inr m \<Rightarrow> True | Inl e \<Rightarrow> False)"

subsection \<open>\<open>Path.read_text\<close> and \<open>Path.write_text\<close>\<close>

text \<open>
  \<open>read_text()\<close> opens the file in mode \<open>'r'\<close>, decodes all of it and translates the
  newlines of the decoded text.
\<close>

definition read_text :: "platform \<Rightarrow> pure_path \<Rightarrow> world \<Rightarrow> (error + str) \<times> world" where
  "read_text pf p w =
     (let a = resolve (cwd w) p;
          w1 = w\<lparr>opened := opened w @ [Open a Reading]\<rparr>
      in case slurp (fs w) a of
           Inl e \<Rightarrow> (Inl e, w1)
         | Inr b \<Rightarrow>
             (case decode pf b of
                None \<Rightarrow> (Inl UnicodeDecodeError, w1)
              | Some t \<Rightarrow> (Inr (nl_in t), w1)))"

text \<open>
  \<open>write_text(data)\<close> opens the file in mode \<open>'w'\<close>, which creates or truncates it, and only
  then translates and encodes \<open>data\<close>: an encoding error leaves the file empty. The result
  is the number of characters written.
\<close>

definition write_text :: "platform \<Rightarrow> pure_path \<Rightarrow> str \<Rightarrow> world \<Rightarrow> (error + nat) \<times> world" where
  "write_text pf p data w =
     (let a = resolve (cwd w) p;
          w1 = w\<lparr>opened := opened w @ [Open a Writing]\<rparr>
      in case store (fs w) a [] of
           Inl e \<Rightarrow> (Inl e, w1)
         | Inr truncated \<Rightarrow>
             (case encode pf (nl_out (linesep pf) data) of
                None \<Rightarrow> (Inl UnicodeEncodeError, w1\<lparr>fs := truncated\<rparr>)
              | Some b \<Rightarrow>
                  (case store truncated a b of
                     Inl e \<Rightarrow> (Inl e, w1\<lparr>fs := truncated\<rparr>)
                   | Inr written \<Rightarrow> (Inr (length data), w1\<lparr>fs := written\<rparr>))))"

subsection \<open>The script\<close>

text \<open>
  The argument of \<open>write_text\<close> is evaluated before \<open>write_text\<close> is called: the read comes
  first, and an exception in it leaves the call of \<open>write_text\<close> unmade.
\<close>

definition prepare_index_file :: "platform \<Rightarrow> pure_path \<Rightarrow> world \<Rightarrow> (error + unit) \<times> world" where
  "prepare_index_file pf file w =
     (case read_text pf (readme_path file) w of
        (Inl e, w1) \<Rightarrow> (Inl e, w1)
      | (Inr data, w1) \<Rightarrow>
          (case write_text pf (index_path file) data w1 of
             (Inl e, w2) \<Rightarrow> (Inl e, w2)
           | (Inr n, w2) \<Rightarrow> (Inr (), w2)))"

definition main :: "platform \<Rightarrow> pure_path \<Rightarrow> world \<Rightarrow> (error + unit) \<times> world" where
  "main pf file w = prepare_index_file pf file w"

text \<open>
  Running the module: the definitions have no effect, and the guard
  \<open>if __name__ == "__main__"\<close> decides whether \<open>main()\<close> is called. The interpreter ends with
  status 0 when the module body returns and with status 1 when an exception leaves it.
\<close>

definition run_module :: "string \<Rightarrow> platform \<Rightarrow> pure_path \<Rightarrow> world \<Rightarrow> (error + unit) \<times> world" where
  "run_module name pf file w = (if name = ''__main__'' then main pf file w else (Inr (), w))"

definition exit_status :: "(error + unit) \<times> world \<Rightarrow> nat" where
  "exit_status r = (case fst r of Inl e \<Rightarrow> 1 | Inr u \<Rightarrow> 0)"

subsection \<open>Notions used to state the properties\<close>

text \<open>
  What the read followed by the write does to the bytes of a file: decode, translate the
  newlines inwards, translate them outwards, encode. \<open>None\<close> where either conversion
  raises.
\<close>

definition transcode :: "platform \<Rightarrow> bytes \<Rightarrow> bytes option" where
  "transcode pf c =
     (case decode pf c of
        None \<Rightarrow> None
      | Some t \<Rightarrow> encode pf (nl_out (linesep pf) (nl_in t)))"

text \<open>
  Two properties an encoding may have. \<open>lossless\<close>: encoding what was decoded gives the
  bytes back (true of strict UTF-8, ISO-8859-1 and ASCII). \<open>reads_back\<close>: decoding what
  was encoded gives the text back.
\<close>

definition lossless :: "platform \<Rightarrow> bool" where
  "lossless pf \<longleftrightarrow> (\<forall>b t. decode pf b = Some t \<longrightarrow> encode pf t = Some b)"

definition reads_back :: "platform \<Rightarrow> bool" where
  "reads_back pf \<longleftrightarrow> (\<forall>t b. encode pf t = Some b \<longrightarrow> decode pf b = Some t)"

text \<open>
  Concrete inputs: a checkout at \<open>/repo\<close> with the script at
  \<open>/repo/scripts/prepare_docs.py\<close>, run from \<open>/home\<close>.
\<close>

definition script_file :: pure_path where
  "script_file = PurePath True [''repo'', ''scripts'', ''prepare_docs.py'']"

definition repo :: "(string \<times> node) list \<Rightarrow> world" where
  "repo entries = \<lparr>fs = Dir [(''repo'', Dir entries)], cwd = [''home''], opened = []\<rparr>"

definition project :: "bytes \<Rightarrow> bytes \<Rightarrow> world" where
  "project readme index =
     repo [(''README.md'', File readme),
           (''docs'', Dir [(''index.md'', File index)]),
           (''scripts'', Dir [(''prepare_docs.py'', File [])])]"

section \<open>Properties of the model\<close>

subsection \<open>The file system\<close>

lemma lookup_append:
  "lookup n (p @ q) = (case lookup n p of Inl e \<Rightarrow> Inl e | Inr m \<Rightarrow> lookup m q)"
  by (induction p arbitrary: n) (auto split: sum.splits)

lemma update_twice: "AList.update k v (AList.update k u es) = AList.update k v es"
  by (induction es) auto

lemma content_simps [simp]:
  "content (File b) [] = Some b"
  "content (File b) (x # xs) = None"
  "content (Dir es) [] = None"
  "content (Dir es) (x # xs) = (case map_of es x of None \<Rightarrow> None | Some m \<Rightarrow> content m xs)"
  by (simp_all add: content_def split: option.splits)

lemma is_dir_simps [simp]:
  "is_dir (File b) p = False"
  "is_dir (Dir es) [] = True"
  "is_dir (Dir es) (x # xs) = (case map_of es x of None \<Rightarrow> False | Some m \<Rightarrow> is_dir m xs)"
  by (cases p; simp add: is_dir_def split: option.splits)+

lemma slurp_content: "slurp n p = Inr b \<longleftrightarrow> content n p = Some b"
  by (auto simp: slurp_def content_def split: sum.splits node.splits)

text \<open>After a write the file holds what was written.\<close>

lemma store_lookup: "store n p b = Inr n' \<Longrightarrow> lookup n' p = Inr (File b)"
proof (induction n p b arbitrary: n' rule: store.induct)
  case (4 es x xs b)
  then show ?case
    by (auto split: option.splits if_splits sum.splits simp: AList.update_conv')
qed auto

lemma store_content: "store n p b = Inr n' \<Longrightarrow> content n' p = Some b"
  by (simp add: content_def store_lookup)

text \<open>A second write to the same path forgets the first.\<close>

lemma store_store: "store n p b = Inr n' \<Longrightarrow> store n' p c = store n p c"
proof (induction n p b arbitrary: n' rule: store.induct)
  case (4 es x xs b)
  then show ?case
    by (auto split: option.splits if_splits sum.splits simp: AList.update_conv' update_twice)
qed auto

text \<open>Whether a write fails, and how, does not depend on the bytes.\<close>

lemma store_error: "store n p b = Inl e \<Longrightarrow> store n p c = Inl e"
proof (induction n p b rule: store.induct)
  case (4 es x xs b)
  then show ?case
    by (auto split: option.splits if_splits sum.splits)
qed auto

text \<open>A write changes the content of no other path, and makes or removes no directory.\<close>

lemma store_frame:
  "store n p b = Inr n' \<Longrightarrow> q \<noteq> p \<Longrightarrow> content n' q = content n q"
proof (induction n p b arbitrary: n' q rule: store.induct)
  case (1 old b)
  then show ?case by (cases q) auto
next
  case (4 es x xs b)
  show ?case
  proof (cases q)
    case Nil
    with 4 show ?thesis by (auto split: option.splits if_splits sum.splits)
  next
    case (Cons y ys)
    show ?thesis
    proof (cases "map_of es x")
      case None
      with 4 Cons show ?thesis
        by (cases ys) (auto simp: AList.update_conv' split: option.splits if_splits sum.splits)
    next
      case (Some m)
      with 4 Cons show ?thesis
        by (auto simp: AList.update_conv' split: option.splits if_splits sum.splits)
    qed
  qed
qed auto


text \<open>Writing below a directory that is not there.\<close>

lemma store_missing_dir:
  "lookup n r = Inr (Dir es) \<Longrightarrow> map_of es d = None
     \<Longrightarrow> store n (r @ [d, f]) b = Inl FileNotFoundError"
proof (induction r arbitrary: n)
  case Nil
  then show ?case by simp
next
  case (Cons x xs)
  then show ?case by (cases n) (auto split: option.splits sum.splits)
qed

lemma store_absent_dir:
  assumes "is_dir n r" and "\<not> exists_path n (r @ [d])"
  shows "store n (r @ [d, f]) b = Inl FileNotFoundError"
proof -
  from assms(1) obtain es where es: "lookup n r = Inr (Dir es)"
    by (auto simp: is_dir_def split: sum.splits node.splits)
  with assms(2) have "map_of es d = None"
    by (auto simp: exists_path_def lookup_append split: option.splits)
  with es show ?thesis by (rule store_missing_dir)
qed

lemma lookup_absent:
  assumes "is_dir n r" and "\<not> exists_path n (r @ [f])"
  shows "lookup n (r @ [f]) = Inl FileNotFoundError"
  using assms
  by (auto simp: is_dir_def exists_path_def lookup_append
      split: sum.splits node.splits option.splits)

text \<open>Writing into an existing directory succeeds unless the name is a directory.\<close>

lemma store_here: "\<not> is_dir m [] \<Longrightarrow> store m [] b = Inr (File b)"
  by (cases m) auto

lemma store_ok:
  "is_dir n r \<Longrightarrow> \<not> is_dir n (r @ [f]) \<Longrightarrow> \<exists>n'. store n (r @ [f]) b = Inr n'"
proof (induction r arbitrary: n)
  case Nil
  then show ?case by (cases n) (auto split: option.splits sum.splits simp: store_here)
next
  case (Cons x xs)
  then show ?case by (cases n) (fastforce split: option.splits sum.splits)+
qed

subsection \<open>Newlines and encodings\<close>

lemma nl_in_cons: "c \<noteq> CR \<Longrightarrow> nl_in (c # cs) = c # nl_in cs"
  by (cases cs) auto

lemma nl_in_no_cr: "CR \<notin> set (nl_in t)"
  by (induction t rule: nl_in.induct) auto

lemma nl_in_id: "CR \<notin> set t \<Longrightarrow> nl_in t = t"
  by (induction t) (auto simp: nl_in_cons)

lemma nl_out_lf: "nl_out [LF] t = t"
  by (induction t) auto

lemma nl_in_out_crlf: "CR \<notin> set t \<Longrightarrow> nl_in (nl_out [CR, LF] t) = t"
  by (induction t) (auto simp: nl_in_cons)

text \<open>Text that was read, written and read again is the text that was read.\<close>

lemma nl_round:
  "sep = [LF] \<or> sep = [CR, LF] \<Longrightarrow> nl_in (nl_out sep (nl_in t)) = nl_in t"
  using nl_in_no_cr [of t] by (auto simp: nl_out_lf nl_in_id nl_in_out_crlf)

lemma of_char_less_256: "(of_char c :: nat) < 256"
  by (cases c) (simp add: of_char_def)

lemma latin1_lossless: "lossless posix_latin1"
  by (auto simp: lossless_def posix_latin1_def latin1_decode_def latin1_encode_def
      list_all_iff of_char_less_256 o_def)

lemma latin1_reads_back: "reads_back posix_latin1"
  by (auto simp: reads_back_def posix_latin1_def latin1_decode_def latin1_encode_def
      list_all_iff o_def of_char_of intro!: map_idI split: if_splits)

lemma transcode_exact:
  assumes "lossless pf" "linesep pf = [LF]" "decode pf c = Some t" "CR \<notin> set t"
  shows "transcode pf c = Some c"
  using assms by (simp add: transcode_def nl_out_lf nl_in_id lossless_def)

subsection \<open>Paths\<close>

lemma resolve_joinpath: "resolve wd (joinpath p name) = resolve wd p @ [name]"
  by (cases p) auto

lemma resolve_readme:
  "resolve wd (readme_path file) = resolve wd (ROOT file) @ [''README.md'']"
  by (simp add: readme_path_def resolve_joinpath)

lemma resolve_index:
  "resolve wd (index_path file) = resolve wd (ROOT file) @ [''docs'', ''index.md'']"
  by (simp add: index_path_def resolve_joinpath)

lemma readme_neq_index: "resolve wd (readme_path file) \<noteq> resolve wd (index_path file)"
  by (simp add: resolve_readme resolve_index)

lemma parent_parent: "tail file = ds @ [d, f] \<Longrightarrow> ROOT file = PurePath (anchored file) ds"
  by (cases "file") (simp add: ROOT_def butlast_append)

lemma resolve_anchored: "anchored p \<Longrightarrow> resolve c p = tail p"
  by (cases p) simp

lemma anchored_parent: "anchored (parent p) = anchored p"
  by (cases p) simp

lemma anchored_joinpath: "anchored (joinpath p name) = anchored p"
  by (cases p) simp

lemma anchored_paths:
  "anchored (readme_path file) = anchored file"
  "anchored (index_path file) = anchored file"
  by (simp_all add: readme_path_def index_path_def ROOT_def anchored_parent anchored_joinpath)

subsection \<open>One run of \<open>prepare_index_file\<close>\<close>

text \<open>
  The run laid out as its five outcomes: the read fails, the decoding fails, the open for
  writing fails, the encoding fails after the truncation, or the file is written.
\<close>

lemma prepare_unfold:
  "prepare_index_file pf file w =
     (let src = resolve (cwd w) (readme_path file);
          dst = resolve (cwd w) (index_path file);
          w1 = w\<lparr>opened := opened w @ [Open src Reading]\<rparr>;
          w2 = w\<lparr>opened := opened w @ [Open src Reading, Open dst Writing]\<rparr>
      in case slurp (fs w) src of
           Inl e \<Rightarrow> (Inl e, w1)
         | Inr c \<Rightarrow>
             (case decode pf c of
                None \<Rightarrow> (Inl UnicodeDecodeError, w1)
              | Some t \<Rightarrow>
                  (case store (fs w) dst [] of
                     Inl e \<Rightarrow> (Inl e, w2)
                   | Inr tr \<Rightarrow>
                       (case encode pf (nl_out (linesep pf) (nl_in t)) of
                          None \<Rightarrow> (Inl UnicodeEncodeError, w2\<lparr>fs := tr\<rparr>)
                        | Some out \<Rightarrow>
                            (case store (fs w) dst out of
                               Inl e \<Rightarrow> (Inl e, w2\<lparr>fs := tr\<rparr>)
                             | Inr n \<Rightarrow> (Inr (), w2\<lparr>fs := n\<rparr>))))))"
  by (auto simp: prepare_index_file_def read_text_def write_text_def Let_def store_store
      split: sum.splits option.splits)

lemma read_text_value:
  "fst (read_text pf p w) =
     (case slurp (fs w) (resolve (cwd w) p) of
        Inl e \<Rightarrow> Inl e
      | Inr b \<Rightarrow>
          (case decode pf b of None \<Rightarrow> Inl UnicodeDecodeError | Some t \<Rightarrow> Inr (nl_in t)))"
  by (simp add: read_text_def Let_def split: sum.splits option.splits)

lemma prepare_success:
  assumes "prepare_index_file pf file w = (Inr (), w')"
  shows "\<exists>c out. content (fs w) (resolve (cwd w) (readme_path file)) = Some c
           \<and> transcode pf c = Some out
           \<and> store (fs w) (resolve (cwd w) (index_path file)) out = Inr (fs w')
           \<and> w' = w\<lparr>fs := fs w', opened := opened w @
                [Open (resolve (cwd w) (readme_path file)) Reading,
                 Open (resolve (cwd w) (index_path file)) Writing]\<rparr>"
  using assms
  by (auto simp: prepare_index_file_def read_text_def write_text_def Let_def transcode_def
      slurp_content store_store
      split: sum.splits option.splits prod.splits)

lemma prepare_success_intro:
  assumes "content (fs w) (resolve (cwd w) (readme_path file)) = Some c"
    and "transcode pf c = Some out"
    and "store (fs w) (resolve (cwd w) (index_path file)) out = Inr n'"
  shows "prepare_index_file pf file w =
      (Inr (), w\<lparr>fs := n', opened := opened w @
                [Open (resolve (cwd w) (readme_path file)) Reading,
                 Open (resolve (cwd w) (index_path file)) Writing]\<rparr>)"
proof -
  let ?dst = "resolve (cwd w) (index_path file)"
  from assms(1) have s: "slurp (fs w) (resolve (cwd w) (readme_path file)) = Inr c"
    by (simp add: slurp_content)
  obtain t where t: "decode pf c = Some t" "encode pf (nl_out (linesep pf) (nl_in t)) = Some out"
    using assms(2) by (auto simp: transcode_def split: option.splits)
  obtain tr where tr: "store (fs w) ?dst [] = Inr tr"
    using assms(3) store_error [of "fs w" ?dst "[]" _ out]
    by (cases "store (fs w) ?dst []") auto
  have "store tr ?dst out = Inr n'"
    using tr assms(3) by (simp add: store_store)
  with s t tr show ?thesis
    by (simp add: prepare_index_file_def read_text_def write_text_def Let_def)
qed

section \<open>The claims\<close>

text \<open>
  Throughout, \<open>pf\<close> is the platform, \<open>file\<close> the parsed \<open>__file__\<close> and \<open>w\<close> the world
  before the run; the source is \<open>resolve (cwd w) (readme_path file)\<close> and the destination
  \<open>resolve (cwd w) (index_path file)\<close>.
\<close>

lemma pair_fst: "fst r = a \<Longrightarrow> r = (a, snd r)"
  by (cases r) simp

subsection \<open>C1: fidelity\<close>

text \<open>
  Claim C1, as amended. After a successful run the destination holds \<open>transcode pf c\<close>,
  where \<open>c\<close> is the content of the source: the source text decoded, with \<open>\r\n\<close> and \<open>\r\<close>
  read as \<open>\n\<close> and every \<open>\n\<close> written as \<open>os.linesep\<close>, encoded again. The destination
  equals \<open>c\<close> byte for byte when the decoded text has no carriage return, the line
  separator is \<open>\n\<close> and the encoding is lossless. And whenever what was encoded decodes to
  the same text and the line separator is \<open>\n\<close> or \<open>\r\n\<close>, \<open>read_text\<close> of the destination
  after the run returns what \<open>read_text\<close> of the source returned.
\<close>

theorem fidelity:
  assumes "prepare_index_file pf file w = (Inr (), w')"
    and "content (fs w) (resolve (cwd w) (readme_path file)) = Some c"
  shows "content (fs w') (resolve (cwd w) (index_path file)) = transcode pf c
    \<and> (lossless pf \<and> linesep pf = [LF] \<and> (\<exists>t. decode pf c = Some t \<and> CR \<notin> set t)
          \<longrightarrow> content (fs w') (resolve (cwd w) (index_path file)) = Some c)
    \<and> (reads_back pf \<and> (linesep pf = [LF] \<or> linesep pf = [CR, LF])
          \<longrightarrow> fst (read_text pf (index_path file) w') = fst (read_text pf (readme_path file) w))"
proof -
  let ?src = "resolve (cwd w) (readme_path file)" and ?dst = "resolve (cwd w) (index_path file)"
  from prepare_success [OF assms(1)] assms(2)
  obtain out where out: "transcode pf c = Some out" "store (fs w) ?dst out = Inr (fs w')"
    and w': "w' = w\<lparr>fs := fs w', opened := opened w @ [Open ?src Reading, Open ?dst Writing]\<rparr>"
    by auto
  have cwd': "cwd w' = cwd w"
    by (subst w') simp
  have dst: "content (fs w') ?dst = Some out"
    using out(2) by (rule store_content)
  have a: "content (fs w') ?dst = transcode pf c"
    using dst out(1) by simp
  have b: "content (fs w') ?dst = Some c"
    if "lossless pf \<and> linesep pf = [LF] \<and> (\<exists>t. decode pf c = Some t \<and> CR \<notin> set t)"
    using that a by (auto simp: transcode_exact)
  have c: "fst (read_text pf (index_path file) w') = fst (read_text pf (readme_path file) w)"
    if rb: "reads_back pf \<and> (linesep pf = [LF] \<or> linesep pf = [CR, LF])"
  proof -
    obtain t where t: "decode pf c = Some t"
      "encode pf (nl_out (linesep pf) (nl_in t)) = Some out"
      using out(1) by (auto simp: transcode_def split: option.splits)
    from rb t(2) have "decode pf out = Some (nl_out (linesep pf) (nl_in t))"
      by (simp add: reads_back_def)
    moreover have "nl_in (nl_out (linesep pf) (nl_in t)) = nl_in t"
      using rb by (intro nl_round) simp
    moreover have "slurp (fs w') ?dst = Inr out" "slurp (fs w) ?src = Inr c"
      using dst assms(2) by (simp_all add: slurp_content)
    ultimately show ?thesis
      using t(1) cwd' by (simp add: read_text_value)
  qed
  from a b c show ?thesis by blast
qed

text \<open>
  The scenario of the specification: the source holds three lines ending in \<open>\n\<close>, the
  destination holds \<open>stale\<close>.
\<close>

theorem fidelity_witness:
  "content (fs (snd (prepare_index_file posix_latin1 script_file
        (project ''# Project\<newline>\<newline>Hello world.\<newline>'' ''stale''))))
      [''repo'', ''docs'', ''index.md'']
     = Some ''# Project\<newline>\<newline>Hello world.\<newline>''
   \<and> fst (read_text posix_latin1 (index_path script_file)
        (snd (prepare_index_file posix_latin1 script_file
           (project ''# Project\<newline>\<newline>Hello world.\<newline>'' ''stale''))))
     = fst (read_text posix_latin1 (readme_path script_file)
           (project ''# Project\<newline>\<newline>Hello world.\<newline>'' ''stale''))"
proof -
  let ?c = "''# Project\<newline>\<newline>Hello world.\<newline>''"
  let ?w = "project ?c ''stale''"
  have "fst (prepare_index_file posix_latin1 script_file ?w) = Inr ()"
    by code_simp
  then have run: "prepare_index_file posix_latin1 script_file ?w
      = (Inr (), snd (prepare_index_file posix_latin1 script_file ?w))"
    by (rule pair_fst)
  have src: "content (fs ?w) (resolve (cwd ?w) (readme_path script_file)) = Some ?c"
    by code_simp
  have dst: "resolve (cwd ?w) (index_path script_file) = [''repo'', ''docs'', ''index.md'']"
    by code_simp
  have sep: "linesep posix_latin1 = [LF]"
    by (simp add: posix_latin1_def)
  have "decode posix_latin1 ?c = Some (map of_char ?c)"
    by (simp add: posix_latin1_def latin1_decode_def)
  moreover have "CR \<notin> set (map of_char ?c)"
    by code_simp
  ultimately have dec: "\<exists>t. decode posix_latin1 ?c = Some t \<and> CR \<notin> set t"
    by blast
  show ?thesis
    using fidelity [OF run src] latin1_lossless latin1_reads_back sep dec
    unfolding dst by blast
qed

text \<open>
  The claim as it was stated fails on every platform. Where \<open>os.linesep\<close> is \<open>\n\<close>, a source
  \<open>a\r\nb\<close> is copied as \<open>a\nb\<close>; where it is \<open>\r\n\<close>, a source \<open>a\nb\<close> is copied as
  \<open>a\r\nb\<close>. Both runs succeed.
\<close>

theorem fidelity_counterexample:
  "fst (prepare_index_file posix_latin1 script_file
          (repo [(''README.md'', File (''a'' @ [CHR 0x0D, CHR 0x0A] @ ''b'')),
                 (''docs'', Dir [])]))
     = Inr ()
   \<and> content (fs (snd (prepare_index_file posix_latin1 script_file
          (repo [(''README.md'', File (''a'' @ [CHR 0x0D, CHR 0x0A] @ ''b'')),
                 (''docs'', Dir [])]))))
        [''repo'', ''docs'', ''index.md'']
     = Some ''a\<newline>b''
   \<and> ''a\<newline>b'' \<noteq> ''a'' @ [CHR 0x0D, CHR 0x0A] @ ''b''
   \<and> fst (prepare_index_file windows_latin1 script_file
          (repo [(''README.md'', File ''a\<newline>b''), (''docs'', Dir [])]))
     = Inr ()
   \<and> content (fs (snd (prepare_index_file windows_latin1 script_file
          (repo [(''README.md'', File ''a\<newline>b''), (''docs'', Dir [])]))))
        [''repo'', ''docs'', ''index.md'']
     = Some (''a'' @ [CHR 0x0D, CHR 0x0A] @ ''b'')"
  by code_simp

subsection \<open>C2: overwrite\<close>

text \<open>
  Claim C2, as amended. When the destination already holds some content \<open>d\<close>, a successful
  run replaces it by \<open>transcode pf c\<close>, which does not mention \<open>d\<close>: had the destination
  held any other content \<open>d'\<close> instead, the run would have ended in the very same world.
  Nothing of \<open>d\<close> is merged or kept. The new content is the source content \<open>c\<close> itself
  when the decoded text has no carriage return, the line separator is \<open>\n\<close> and the
  encoding is lossless.
\<close>

theorem overwrite:
  assumes "prepare_index_file pf file w = (Inr (), w')"
    and "content (fs w) (resolve (cwd w) (readme_path file)) = Some c"
    and "content (fs w) (resolve (cwd w) (index_path file)) = Some d"
    and "store (fs w) (resolve (cwd w) (index_path file)) d' = Inr n"
  shows "content (fs w') (resolve (cwd w) (index_path file)) = transcode pf c
    \<and> prepare_index_file pf file (w\<lparr>fs := n\<rparr>) = (Inr (), w')
    \<and> (lossless pf \<and> linesep pf = [LF] \<and> (\<exists>t. decode pf c = Some t \<and> CR \<notin> set t)
          \<longrightarrow> content (fs w') (resolve (cwd w) (index_path file)) = Some c)"
proof -
  let ?src = "resolve (cwd w) (readme_path file)" and ?dst = "resolve (cwd w) (index_path file)"
  from prepare_success [OF assms(1)] assms(2)
  obtain out where out: "transcode pf c = Some out" "store (fs w) ?dst out = Inr (fs w')"
    and w': "w' = w\<lparr>fs := fs w', opened := opened w @ [Open ?src Reading, Open ?dst Writing]\<rparr>"
    by auto
  have a: "content (fs w') ?dst = transcode pf c"
    using store_content [OF out(2)] out(1) by simp
  have "content n ?src = Some c"
    using store_frame [OF assms(4) readme_neq_index] assms(2) by simp
  moreover have "store n ?dst out = Inr (fs w')"
    using store_store [OF assms(4)] out(2) by simp
  ultimately have "prepare_index_file pf file (w\<lparr>fs := n\<rparr>) =
      (Inr (), w\<lparr>fs := n\<rparr>\<lparr>fs := fs w',
         opened := opened (w\<lparr>fs := n\<rparr>) @ [Open ?src Reading, Open ?dst Writing]\<rparr>)"
    using out(1) prepare_success_intro [of "w\<lparr>fs := n\<rparr>" "file" c pf out "fs w'"] by simp
  then have b: "prepare_index_file pf file (w\<lparr>fs := n\<rparr>) = (Inr (), w')"
    using w' by simp
  from a b show ?thesis by (auto simp: transcode_exact)
qed

text \<open>The scenario again, against the same project with another stale destination.\<close>

theorem overwrite_witness:
  "prepare_index_file posix_latin1 script_file
       (project ''# Project\<newline>\<newline>Hello world.\<newline>'' ''other'')
     = prepare_index_file posix_latin1 script_file
       (project ''# Project\<newline>\<newline>Hello world.\<newline>'' ''stale'')
   \<and> content (fs (snd (prepare_index_file posix_latin1 script_file
        (project ''# Project\<newline>\<newline>Hello world.\<newline>'' ''stale''))))
      [''repo'', ''docs'', ''index.md'']
     = Some ''# Project\<newline>\<newline>Hello world.\<newline>''"
proof -
  let ?c = "''# Project\<newline>\<newline>Hello world.\<newline>''"
  let ?w = "project ?c ''stale''"
  have ok: "fst (prepare_index_file posix_latin1 script_file ?w) = Inr ()"
    by code_simp
  then have run: "prepare_index_file posix_latin1 script_file ?w
      = (Inr (), snd (prepare_index_file posix_latin1 script_file ?w))"
    by (rule pair_fst)
  have src: "content (fs ?w) (resolve (cwd ?w) (readme_path script_file)) = Some ?c"
    by code_simp
  have old: "content (fs ?w) (resolve (cwd ?w) (index_path script_file)) = Some ''stale''"
    by code_simp
  have alt: "store (fs ?w) (resolve (cwd ?w) (index_path script_file)) ''other''
      = Inr (fs (project ?c ''other''))"
    by code_simp
  have dst: "resolve (cwd ?w) (index_path script_file) = [''repo'', ''docs'', ''index.md'']"
    by code_simp
  have same: "?w\<lparr>fs := fs (project ?c ''other'')\<rparr> = project ?c ''other''"
    by (simp add: project_def repo_def)
  have sep: "linesep posix_latin1 = [LF]"
    by (simp add: posix_latin1_def)
  have "decode posix_latin1 ?c = Some (map of_char ?c)"
    by (simp add: posix_latin1_def latin1_decode_def)
  moreover have "CR \<notin> set (map of_char ?c)"
    by code_simp
  ultimately have dec: "\<exists>t. decode posix_latin1 ?c = Some t \<and> CR \<notin> set t"
    by blast
  show ?thesis
    using overwrite [OF run src old alt] latin1_lossless sep dec run
    unfolding dst same by metis
qed

text \<open>
  The claim as it was stated fails: with the source \<open>line\r\n\<close> and the destination
  \<open>line\n\<close>, two different contents, the run succeeds and the destination holds what it
  held before, not the content of the source.
\<close>

theorem overwrite_counterexample:
  "''line\<newline>'' \<noteq> ''line'' @ [CHR 0x0D, CHR 0x0A]
   \<and> content (fs (project (''line'' @ [CHR 0x0D, CHR 0x0A]) ''line\<newline>''))
        [''repo'', ''README.md'']
     = Some (''line'' @ [CHR 0x0D, CHR 0x0A])
   \<and> content (fs (project (''line'' @ [CHR 0x0D, CHR 0x0A]) ''line\<newline>''))
        [''repo'', ''docs'', ''index.md'']
     = Some ''line\<newline>''
   \<and> fst (prepare_index_file posix_latin1 script_file
          (project (''line'' @ [CHR 0x0D, CHR 0x0A]) ''line\<newline>''))
     = Inr ()
   \<and> content (fs (snd (prepare_index_file posix_latin1 script_file
          (project (''line'' @ [CHR 0x0D, CHR 0x0A]) ''line\<newline>''))))
        [''repo'', ''docs'', ''index.md'']
     = Some ''line\<newline>''"
  by code_simp

subsection \<open>C3: idempotence\<close>

text \<open>
  Claim C3. Running \<open>prepare_index_file\<close> twice in succession leaves the destination, and
  indeed the whole file system, after the second run as it was after the first, and the
  second run ends as the first did. This holds for every source content and also when the
  runs fail; the source is unchanged between the runs because a run never writes to it.
\<close>

theorem idempotence:
  "fs (snd (prepare_index_file pf file (snd (prepare_index_file pf file w))))
     = fs (snd (prepare_index_file pf file w))
   \<and> fst (prepare_index_file pf file (snd (prepare_index_file pf file w)))
     = fst (prepare_index_file pf file w)"
proof -
  let ?src = "resolve (cwd w) (readme_path file)" and ?dst = "resolve (cwd w) (index_path file)"
  let ?r = "prepare_index_file pf file w"
  let ?w1 = "w\<lparr>opened := opened w @ [Open ?src Reading]\<rparr>"
  let ?w2 = "w\<lparr>opened := opened w @ [Open ?src Reading, Open ?dst Writing]\<rparr>"
  show ?thesis
  proof (cases "slurp (fs w) ?src")
    case (Inl e)
    then have r: "?r = (Inl e, ?w1)"
      by (simp add: prepare_unfold Let_def)
    show ?thesis
      using Inl by (simp add: r prepare_unfold [of pf "file" ?w1] Let_def)
  next
    case c: (Inr c)
    show ?thesis
    proof (cases "decode pf c")
      case None
      with c have r: "?r = (Inl UnicodeDecodeError, ?w1)"
        by (simp add: prepare_unfold Let_def)
      show ?thesis
        using c None by (simp add: r prepare_unfold [of pf "file" ?w1] Let_def)
    next
      case t: (Some t)
      show ?thesis
      proof (cases "store (fs w) ?dst []")
        case (Inl e)
        with c t have r: "?r = (Inl e, ?w2)"
          by (simp add: prepare_unfold Let_def)
        show ?thesis
          using c t Inl by (simp add: r prepare_unfold [of pf "file" ?w2] Let_def)
      next
        case tr: (Inr tr)
        have frame: "slurp m ?src = Inr c" if "store (fs w) ?dst x = Inr m" for m x
          using store_frame [OF that readme_neq_index] c by (simp add: slurp_content)
        have again: "store m ?dst y = store (fs w) ?dst y"
          if "store (fs w) ?dst x = Inr m" for m x y
          using that by (rule store_store)
        show ?thesis
        proof (cases "encode pf (nl_out (linesep pf) (nl_in t))")
          case None
          with c t tr have r: "?r = (Inl UnicodeEncodeError, ?w2\<lparr>fs := tr\<rparr>)"
            by (simp add: prepare_unfold Let_def)
          show ?thesis
            using None t tr frame [OF tr] again [OF tr]
            by (simp add: r prepare_unfold [of pf "file" "?w2\<lparr>fs := tr\<rparr>"] Let_def)
        next
          case out: (Some out)
          obtain n where n: "store (fs w) ?dst out = Inr n"
            using tr store_error [of "fs w" ?dst out _ "[]"]
            by (cases "store (fs w) ?dst out") auto
          with c t tr out have r: "?r = (Inr (), ?w2\<lparr>fs := n\<rparr>)"
            by (simp add: prepare_unfold Let_def)
          show ?thesis
            using out t tr n frame [OF n] again [OF n]
            by (simp add: r prepare_unfold [of pf "file" "?w2\<lparr>fs := n\<rparr>"] Let_def)
        qed
      qed
    qed
  qed
qed

subsection \<open>C4: the source is missing\<close>

text \<open>
  Claim C4. If the root is a directory and \<open>README.md\<close> does not exist in it, the run raises
  \<open>FileNotFoundError\<close> from the read; the only file opened is the source, for reading, so
  no write has begun; and the file system is as before: the destination is unmodified if
  it existed and absent if it did not.
\<close>

theorem missing_source:
  assumes "is_dir (fs w) (resolve (cwd w) (ROOT file))"
    and "\<not> exists_path (fs w) (resolve (cwd w) (readme_path file))"
  shows "prepare_index_file pf file w =
      (Inl FileNotFoundError,
       w\<lparr>opened := opened w @ [Open (resolve (cwd w) (readme_path file)) Reading]\<rparr>)
    \<and> fs (snd (prepare_index_file pf file w)) = fs w"
proof -
  have "lookup (fs w) (resolve (cwd w) (readme_path file)) = Inl FileNotFoundError"
    using assms by (simp add: resolve_readme lookup_absent)
  then have "slurp (fs w) (resolve (cwd w) (readme_path file)) = Inl FileNotFoundError"
    by (simp add: slurp_def)
  then show ?thesis
    by (simp add: prepare_unfold Let_def)
qed

text \<open>A checkout without \<open>README.md\<close>, once with a destination and once without.\<close>

theorem missing_source_witness:
  "fst (prepare_index_file posix_latin1 script_file
          (repo [(''docs'', Dir [(''index.md'', File ''stale'')])]))
     = Inl FileNotFoundError
   \<and> content (fs (snd (prepare_index_file posix_latin1 script_file
          (repo [(''docs'', Dir [(''index.md'', File ''stale'')])]))))
        [''repo'', ''docs'', ''index.md'']
     = Some ''stale''
   \<and> fst (prepare_index_file posix_latin1 script_file (repo [(''docs'', Dir [])]))
     = Inl FileNotFoundError
   \<and> \<not> exists_path (fs (snd (prepare_index_file posix_latin1 script_file
          (repo [(''docs'', Dir [])]))))
        [''repo'', ''docs'', ''index.md'']"
proof -
  let ?w = "repo [(''docs'', Dir [(''index.md'', File ''stale'')])]"
  let ?v = "repo [(''docs'', Dir [])]"
  have w: "is_dir (fs ?w) (resolve (cwd ?w) (ROOT script_file))"
    "\<not> exists_path (fs ?w) (resolve (cwd ?w) (readme_path script_file))"
    by code_simp+
  have v: "is_dir (fs ?v) (resolve (cwd ?v) (ROOT script_file))"
    "\<not> exists_path (fs ?v) (resolve (cwd ?v) (readme_path script_file))"
    by code_simp+
  have before: "content (fs ?w) [''repo'', ''docs'', ''index.md''] = Some ''stale''"
    "\<not> exists_path (fs ?v) [''repo'', ''docs'', ''index.md'']"
    by code_simp+
  show ?thesis
    using missing_source [OF w, of posix_latin1] missing_source [OF v, of posix_latin1] before
    by simp
qed

subsection \<open>C5: the destination directory is missing\<close>

text \<open>
  Claim C5. If the root is a directory and \<open>docs\<close> does not exist in it, every run fails and
  leaves the file system as it was: no file and no directory is created. When the read of
  \<open>README.md\<close> succeeds, the error is \<open>FileNotFoundError\<close>, raised by the open for writing.
  (When the read fails, its error is raised instead, the read being first.)
\<close>

theorem missing_docs_directory:
  assumes "is_dir (fs w) (resolve (cwd w) (ROOT file))"
    and "\<not> exists_path (fs w) (resolve (cwd w) (ROOT file) @ [''docs''])"
  shows "(\<exists>e. fst (prepare_index_file pf file w) = Inl e)
    \<and> fs (snd (prepare_index_file pf file w)) = fs w
    \<and> ((\<exists>data. fst (read_text pf (readme_path file) w) = Inr data)
         \<longrightarrow> prepare_index_file pf file w =
             (Inl FileNotFoundError,
              w\<lparr>opened := opened w @
                 [Open (resolve (cwd w) (readme_path file)) Reading,
                  Open (resolve (cwd w) (index_path file)) Writing]\<rparr>))"
proof -
  have "store (fs w) (resolve (cwd w) (index_path file)) b = Inl FileNotFoundError" for b
    using assms by (simp add: resolve_index store_absent_dir)
  then show ?thesis
    by (auto simp: prepare_unfold read_text_value Let_def split: sum.splits option.splits)
qed

text \<open>A checkout with a readable \<open>README.md\<close> and no \<open>docs\<close>.\<close>

theorem missing_docs_directory_witness:
  "fst (prepare_index_file posix_latin1 script_file (repo [(''README.md'', File ''hello'')]))
     = Inl FileNotFoundError
   \<and> fs (snd (prepare_index_file posix_latin1 script_file
          (repo [(''README.md'', File ''hello'')])))
     = fs (repo [(''README.md'', File ''hello'')])
   \<and> \<not> exists_path (fs (snd (prepare_index_file posix_latin1 script_file
          (repo [(''README.md'', File ''hello'')]))))
        [''repo'', ''docs'']"
proof -
  let ?w = "repo [(''README.md'', File ''hello'')]"
  have w: "is_dir (fs ?w) (resolve (cwd ?w) (ROOT script_file))"
    "\<not> exists_path (fs ?w) (resolve (cwd ?w) (ROOT script_file) @ [''docs''])"
    by code_simp+
  have "fst (read_text posix_latin1 (readme_path script_file) ?w) = Inr (map of_char ''hello'')"
    by code_simp
  then have rd: "\<exists>data. fst (read_text posix_latin1 (readme_path script_file) ?w) = Inr data"
    by blast
  have before: "\<not> exists_path (fs ?w) [''repo'', ''docs'']"
    by code_simp
  show ?thesis
    using missing_docs_directory [OF w, of posix_latin1] rd before by simp
qed

subsection \<open>C6: the root path\<close>

text \<open>
  Claim C6. The root is the parent of the parent of the script's path: for a script at
  \<open>ds/d/f\<close> it is \<open>ds\<close>, and the source and the destination are \<open>ds/README.md\<close> and
  \<open>ds/docs/index.md\<close>. The script's path is absolute (\<open>__file__\<close> of a script or module is
  an absolute path in the Python versions the script declares, 3.13 and later), so the
  working directory takes no part: the same run from another working directory has the
  same outcome and the same effect.
\<close>

theorem root_path_resolution:
  "ROOT file = parent (parent file)
   \<and> (tail file = ds @ [d, f] \<longrightarrow> ROOT file = PurePath (anchored file) ds)
   \<and> (anchored file \<and> tail file = ds @ [d, f] \<longrightarrow>
        resolve c (readme_path file) = ds @ [''README.md'']
      \<and> resolve c (index_path file) = ds @ [''docs'', ''index.md''])
   \<and> (anchored file \<longrightarrow>
        prepare_index_file pf file (w\<lparr>cwd := c\<rparr>) =
          (fst (prepare_index_file pf file w),
           (snd (prepare_index_file pf file w))\<lparr>cwd := c\<rparr>))"
proof -
  have a: "ROOT file = parent (parent file)"
    by (simp add: ROOT_def)
  have b: "ROOT file = PurePath (anchored file) ds" if "tail file = ds @ [d, f]"
    using that by (rule parent_parent)
  have c: "resolve c (readme_path file) = ds @ [''README.md'']
      \<and> resolve c (index_path file) = ds @ [''docs'', ''index.md'']"
    if "anchored file \<and> tail file = ds @ [d, f]"
    using that by (simp add: resolve_readme resolve_index parent_parent)
  have d: "prepare_index_file pf file (w\<lparr>cwd := c\<rparr>) =
          (fst (prepare_index_file pf file w),
           (snd (prepare_index_file pf file w))\<lparr>cwd := c\<rparr>)"
    if "anchored file"
  proof -
    have "resolve c' (readme_path file) = tail (readme_path file)"
      "resolve c' (index_path file) = tail (index_path file)" for c'
      using that by (simp_all add: resolve_anchored anchored_paths)
    then show ?thesis
      by (simp add: prepare_unfold Let_def split: sum.splits option.splits)
  qed
  from a b c d show ?thesis by blast
qed

text \<open>The script at \<open>/repo/scripts/prepare_docs.py\<close>, run from \<open>/home\<close> and from \<open>/repo/docs\<close>.\<close>

theorem root_path_resolution_witness:
  "ROOT script_file = PurePath True [''repo'']
   \<and> resolve [''repo'', ''docs''] (readme_path script_file) = [''repo'', ''README.md'']
   \<and> resolve [''repo'', ''docs''] (index_path script_file) = [''repo'', ''docs'', ''index.md'']
   \<and> prepare_index_file posix_latin1 script_file
        ((project ''hello'' ''stale'')\<lparr>cwd := [''repo'', ''docs'']\<rparr>)
     = (fst (prepare_index_file posix_latin1 script_file (project ''hello'' ''stale'')),
        (snd (prepare_index_file posix_latin1 script_file (project ''hello'' ''stale'')))
          \<lparr>cwd := [''repo'', ''docs'']\<rparr>)"
proof -
  have a: "anchored script_file"
    by (simp add: script_file_def)
  have t: "tail script_file = [''repo''] @ [''scripts'', ''prepare_docs.py'']"
    by (simp add: script_file_def)
  note r = root_path_resolution [of script_file "[''repo'']" "''scripts''" "''prepare_docs.py''"
      "[''repo'', ''docs'']" posix_latin1 "project ''hello'' ''stale''"]
  from r t have 1: "ROOT script_file = PurePath (anchored script_file) [''repo'']"
    by blast
  from r a t have 2: "resolve [''repo'', ''docs''] (readme_path script_file)
        = [''repo''] @ [''README.md'']
      \<and> resolve [''repo'', ''docs''] (index_path script_file)
        = [''repo''] @ [''docs'', ''index.md'']"
    by blast
  from r a have 3: "prepare_index_file posix_latin1 script_file
        ((project ''hello'' ''stale'')\<lparr>cwd := [''repo'', ''docs'']\<rparr>)
     = (fst (prepare_index_file posix_latin1 script_file (project ''hello'' ''stale'')),
        (snd (prepare_index_file posix_latin1 script_file (project ''hello'' ''stale'')))
          \<lparr>cwd := [''repo'', ''docs'']\<rparr>)"
    by blast
  from 1 2 3 a show ?thesis by simp
qed

subsection \<open>C7: the entry point\<close>

text \<open>
  Claim C7. Run as \<open>__main__\<close>, the module does what one call of \<open>prepare_index_file\<close>
  does and nothing else: it opens the source once for reading and the destination at most
  once for writing. The exit status is 0 exactly when the call returns and 1 when it
  raises. An error of the read or of the write leaves the module as the very error that
  was raised, with the world as the failing operation left it: nothing is caught,
  wrapped or retried.
\<close>

theorem entry_point:
  "run_module ''__main__'' pf file w = prepare_index_file pf file w
   \<and> (exit_status (run_module ''__main__'' pf file w) = 0
        \<longleftrightarrow> fst (prepare_index_file pf file w) = Inr ())
   \<and> (\<forall>e. fst (prepare_index_file pf file w) = Inl e
        \<longrightarrow> exit_status (run_module ''__main__'' pf file w) = 1)
   \<and> (\<forall>e w1. read_text pf (readme_path file) w = (Inl e, w1)
        \<longrightarrow> run_module ''__main__'' pf file w = (Inl e, w1))
   \<and> (\<forall>data w1 e w2. read_text pf (readme_path file) w = (Inr data, w1)
          \<and> write_text pf (index_path file) data w1 = (Inl e, w2)
        \<longrightarrow> run_module ''__main__'' pf file w = (Inl e, w2))
   \<and> (opened (snd (run_module ''__main__'' pf file w)) =
          opened w @ [Open (resolve (cwd w) (readme_path file)) Reading]
      \<or> opened (snd (run_module ''__main__'' pf file w)) =
          opened w @ [Open (resolve (cwd w) (readme_path file)) Reading,
                      Open (resolve (cwd w) (index_path file)) Writing])"
proof -
  have run: "run_module ''__main__'' pf file w = prepare_index_file pf file w"
    by (simp add: run_module_def main_def)
  have status: "exit_status r = 0 \<longleftrightarrow> fst r = Inr ()" for r
    by (simp add: exit_status_def split: sum.splits)
  have failed: "exit_status r = 1" if "fst r = Inl e" for r e
    using that by (simp add: exit_status_def)
  have rd: "prepare_index_file pf file w = (Inl e, w1)"
    if "read_text pf (readme_path file) w = (Inl e, w1)" for e w1
    using that by (simp add: prepare_index_file_def)
  have wr: "prepare_index_file pf file w = (Inl e, w2)"
    if "read_text pf (readme_path file) w = (Inr data, w1)
          \<and> write_text pf (index_path file) data w1 = (Inl e, w2)" for data w1 e w2
    using that by (simp add: prepare_index_file_def)
  have ev: "opened (snd (prepare_index_file pf file w)) =
          opened w @ [Open (resolve (cwd w) (readme_path file)) Reading]
      \<or> opened (snd (prepare_index_file pf file w)) =
          opened w @ [Open (resolve (cwd w) (readme_path file)) Reading,
                      Open (resolve (cwd w) (index_path file)) Writing]"
    by (simp add: prepare_unfold Let_def split: sum.splits option.splits)
  show ?thesis
    unfolding run using status failed rd wr ev by blast
qed

text \<open>
  Three runs: the scenario, which ends with status 0; a source that is not ASCII on an
  ASCII platform, where the decoding error of the read ends the run with status 1; and a
  checkout without \<open>docs\<close>, where the error of the write does.
\<close>

theorem entry_point_witness:
  "exit_status (run_module ''__main__'' posix_latin1 script_file (project ''hello'' ''stale'')) = 0
   \<and> fst (run_module ''__main__'' posix_ascii script_file (project [CHR 0xE9] ''stale''))
     = Inl UnicodeDecodeError
   \<and> exit_status (run_module ''__main__'' posix_ascii script_file (project [CHR 0xE9] ''stale''))
     = 1
   \<and> fst (run_module ''__main__'' posix_latin1 script_file (repo [(''README.md'', File ''hello'')]))
     = Inl FileNotFoundError
   \<and> exit_status (run_module ''__main__'' posix_latin1 script_file
        (repo [(''README.md'', File ''hello'')]))
     = 1"
proof -
  let ?w = "project ''hello'' ''stale''" and ?u = "project [CHR 0xE9] ''stale''"
  let ?v = "repo [(''README.md'', File ''hello'')]"
  have ok: "fst (prepare_index_file posix_latin1 script_file ?w) = Inr ()"
    by code_simp
  have "fst (read_text posix_ascii (readme_path script_file) ?u) = Inl UnicodeDecodeError"
    by code_simp
  then have rd: "read_text posix_ascii (readme_path script_file) ?u
      = (Inl UnicodeDecodeError, snd (read_text posix_ascii (readme_path script_file) ?u))"
    by (rule pair_fst)
  have "fst (read_text posix_latin1 (readme_path script_file) ?v) = Inr (map of_char ''hello'')"
    by code_simp
  then have rv: "read_text posix_latin1 (readme_path script_file) ?v
      = (Inr (map of_char ''hello''), snd (read_text posix_latin1 (readme_path script_file) ?v))"
    by (rule pair_fst)
  have "fst (write_text posix_latin1 (index_path script_file) (map of_char ''hello'')
          (snd (read_text posix_latin1 (readme_path script_file) ?v))) = Inl FileNotFoundError"
    by code_simp
  then have wv: "write_text posix_latin1 (index_path script_file) (map of_char ''hello'')
          (snd (read_text posix_latin1 (readme_path script_file) ?v))
      = (Inl FileNotFoundError,
         snd (write_text posix_latin1 (index_path script_file) (map of_char ''hello'')
          (snd (read_text posix_latin1 (readme_path script_file) ?v))))"
    by (rule pair_fst)
  have 1: "exit_status (run_module ''__main__'' posix_latin1 script_file ?w) = 0"
    using entry_point [of posix_latin1 script_file ?w] ok by blast
  have 2: "run_module ''__main__'' posix_ascii script_file ?u
      = (Inl UnicodeDecodeError, snd (read_text posix_ascii (readme_path script_file) ?u))"
    using entry_point [of posix_ascii script_file ?u] rd by blast
  have 3: "exit_status (run_module ''__main__'' posix_ascii script_file ?u) = 1"
    using entry_point [of posix_ascii script_file ?u] 2 by (metis fst_conv)
  have 4: "run_module ''__main__'' posix_latin1 script_file ?v
      = (Inl FileNotFoundError,
         snd (write_text posix_latin1 (index_path script_file) (map of_char ''hello'')
          (snd (read_text posix_latin1 (readme_path script_file) ?v))))"
    using entry_point [of posix_latin1 script_file ?v] rv wv by blast
  have 5: "exit_status (run_module ''__main__'' posix_latin1 script_file ?v) = 1"
    using entry_point [of posix_latin1 script_file ?v] 4 by (metis fst_conv)
  from 1 2 3 4 5 show ?thesis by simp
qed

subsection \<open>C8: an empty source\<close>

text \<open>
  Claim C8. If \<open>README.md\<close> exists and is empty, and the destination can be written
  (\<open>docs\<close> is a directory and \<open>index.md\<close> is not one), the run succeeds and the destination
  is empty afterwards. The platform is assumed to decode no bytes to the empty text and
  to encode the empty text to no bytes, as every encoding without a byte order mark does.
\<close>

theorem empty_source:
  assumes "content (fs w) (resolve (cwd w) (readme_path file)) = Some []"
    and "decode pf [] = Some []" and "encode pf [] = Some []"
    and "is_dir (fs w) (resolve (cwd w) (ROOT file) @ [''docs''])"
    and "\<not> is_dir (fs w) (resolve (cwd w) (index_path file))"
  shows "fst (prepare_index_file pf file w) = Inr ()
    \<and> content (fs (snd (prepare_index_file pf file w))) (resolve (cwd w) (index_path file))
        = Some []"
proof -
  let ?dst = "resolve (cwd w) (index_path file)"
  have "transcode pf [] = Some []"
    using assms(2,3) by (simp add: transcode_def)
  moreover obtain n where n: "store (fs w) ?dst [] = Inr n"
    using store_ok [of "fs w" "resolve (cwd w) (ROOT file) @ [''docs'']" "''index.md''" "[]"]
      assms(4,5)
    by (auto simp: resolve_index)
  ultimately have "prepare_index_file pf file w =
      (Inr (), w\<lparr>fs := n, opened := opened w @
                [Open (resolve (cwd w) (readme_path file)) Reading, Open ?dst Writing]\<rparr>)"
    using assms(1) by (intro prepare_success_intro)
  then show ?thesis
    using store_content [OF n] by simp
qed

text \<open>An empty \<open>README.md\<close>, with a stale destination and with none.\<close>

theorem empty_source_witness:
  "fst (prepare_index_file posix_latin1 script_file (project [] ''stale'')) = Inr ()
   \<and> content (fs (snd (prepare_index_file posix_latin1 script_file (project [] ''stale''))))
        [''repo'', ''docs'', ''index.md'']
     = Some []
   \<and> fst (prepare_index_file posix_latin1 script_file
          (repo [(''README.md'', File []), (''docs'', Dir [])]))
     = Inr ()
   \<and> content (fs (snd (prepare_index_file posix_latin1 script_file
          (repo [(''README.md'', File []), (''docs'', Dir [])]))))
        [''repo'', ''docs'', ''index.md'']
     = Some []"
proof -
  let ?w = "project [] ''stale''" and ?v = "repo [(''README.md'', File []), (''docs'', Dir [])]"
  have pf: "decode posix_latin1 [] = Some []" "encode posix_latin1 [] = Some []"
    by (simp_all add: posix_latin1_def latin1_decode_def latin1_encode_def)
  have w: "content (fs ?w) (resolve (cwd ?w) (readme_path script_file)) = Some []"
    "is_dir (fs ?w) (resolve (cwd ?w) (ROOT script_file) @ [''docs''])"
    "\<not> is_dir (fs ?w) (resolve (cwd ?w) (index_path script_file))"
    by code_simp+
  have v: "content (fs ?v) (resolve (cwd ?v) (readme_path script_file)) = Some []"
    "is_dir (fs ?v) (resolve (cwd ?v) (ROOT script_file) @ [''docs''])"
    "\<not> is_dir (fs ?v) (resolve (cwd ?v) (index_path script_file))"
    by code_simp+
  have dw: "resolve (cwd ?w) (index_path script_file) = [''repo'', ''docs'', ''index.md'']"
    and dv: "resolve (cwd ?v) (index_path script_file) = [''repo'', ''docs'', ''index.md'']"
    by code_simp+
  show ?thesis
    using empty_source [OF w(1) pf w(2,3)] empty_source [OF v(1) pf v(2,3)]
    unfolding dw dv by simp
qed

subsection \<open>C9: the frame\<close>



subsection \<open>C10: determinism\<close>



end
